theory Spec2Isabelle
  imports Complex_Main "HOL-Library.AList"
begin

section \<open>Python values\<close>

text \<open>
  A Python string is a sequence of code points, any of them, a lone surrogate included;
  a code point is a natural number. \<open>str\<close> gives the string that a literal of the
  program text denotes.
\<close>

type_synonym pystr = "nat list"

definition str :: "string \<Rightarrow> pystr" where
  "str s = map of_char s"

text \<open>
  The client in \<^verbatim>\<open>packages/core/examples/stagehand.py\<close> handles values produced by
  \<^verbatim>\<open>json.loads\<close>: \<^verbatim>\<open>None\<close>, booleans, integers, floats, strings, lists and dicts with
  string keys. A float is only ever compared with an integer, which Python does exactly,
  so a float is kept as the rational it denotes, or as one of its three special values.
\<close>

datatype pyfloat = Finite rat | PosInf | NegInf | NaN

text \<open>
  A dict is the list of its items in insertion order; a dict built by Python has no key
  twice, and a lookup reads the first item with the key.
\<close>

datatype json =
    JNull
  | JBool bool
  | JInt int
  | JFloat pyfloat
  | JStr pystr
  | JArr "json list"
  | JObj "(pystr \<times> json) list"

type_synonym dict = "(pystr \<times> json) list"

text \<open>
  Exceptions: the three classes of the module, and the built-in ones its code can let
  through. \<^verbatim>\<open>json.loads\<close> raises \<^verbatim>\<open>JSONDecodeError\<close> on text that is not JSON,
  \<^verbatim>\<open>RecursionError\<close> on text nested too deeply and \<^verbatim>\<open>ValueError\<close> on an integer of too
  many digits; \<^verbatim>\<open>print\<close> raises \<^verbatim>\<open>UnicodeEncodeError\<close> on text the output stream cannot
  encode.
\<close>

datatype error =
    StagehandError pystr
  | StagehandAPIError json
  | StagehandConnectionError pystr
  | AttributeError
  | TypeError
  | JSONDecodeError
  | RecursionError
  | ValueError
  | UnicodeEncodeError

text \<open>\<^verbatim>\<open>d.get(k, default)\<close> and \<^verbatim>\<open>d[k] = v\<close> on a dict.\<close>

definition dict_get :: "dict \<Rightarrow> pystr \<Rightarrow> json \<Rightarrow> json" where
  "dict_get d k dflt = (case map_of d k of None \<Rightarrow> dflt | Some v \<Rightarrow> v)"

definition dict_set :: "dict \<Rightarrow> pystr \<Rightarrow> json \<Rightarrow> dict" where
  "dict_set d k v = AList.update k v d"

text \<open>\<^verbatim>\<open>{**a, **b}\<close>: the items of \<open>b\<close> are stored into \<open>a\<close> one after the other.\<close>

definition dict_merge :: "dict \<Rightarrow> dict \<Rightarrow> dict" where
  "dict_merge a b = foldl (\<lambda>d (k, v). dict_set d k v) a b"

text \<open>
  \<^verbatim>\<open>x.get(k, default)\<close> on a value of unknown shape: only a dict has the method, every
  other value raises \<^verbatim>\<open>AttributeError\<close>.
\<close>

fun py_get :: "json \<Rightarrow> pystr \<Rightarrow> json \<Rightarrow> error + json" where
  "py_get (JObj d) k dflt = Inr (dict_get d k dflt)"
| "py_get _ k dflt = Inl AttributeError"

text \<open>The truth value of a value, as \<^verbatim>\<open>if x:\<close> and \<^verbatim>\<open>x or y\<close> read it.\<close>

fun truthy :: "json \<Rightarrow> bool" where
  "truthy JNull = False"
| "truthy (JBool b) = b"
| "truthy (JInt i) = (i \<noteq> 0)"
| "truthy (JFloat f) = (f \<noteq> Finite 0)"
| "truthy (JStr s) = (s \<noteq> [])"
| "truthy (JArr xs) = (xs \<noteq> [])"
| "truthy (JObj d) = (d \<noteq> [])"

text \<open>\<^verbatim>\<open>x <= n\<close> for a float \<open>x\<close> and an integer \<open>n\<close>.\<close>

fun float_le_int :: "pyfloat \<Rightarrow> int \<Rightarrow> bool" where
  "float_le_int (Finite q) n = (q \<le> of_int n)"
| "float_le_int PosInf n = False"
| "float_le_int NegInf n = True"
| "float_le_int NaN n = False"

text \<open>
  \<^verbatim>\<open>x <= n\<close> for a value of unknown shape and an integer: numbers and booleans compare,
  anything else raises \<^verbatim>\<open>TypeError\<close>.
\<close>

fun py_le_int :: "json \<Rightarrow> int \<Rightarrow> error + bool" where
  "py_le_int (JInt i) n = Inr (i \<le> n)"
| "py_le_int (JBool b) n = Inr ((if b then 1 else 0) \<le> n)"
| "py_le_int (JFloat f) n = Inr (float_le_int f n)"
| "py_le_int _ n = Inl TypeError"

text \<open>
  Iterating over a value, as a list comprehension does: a list gives its elements, a
  string its characters, a dict its keys; anything else raises \<^verbatim>\<open>TypeError\<close>.
\<close>

fun py_iter :: "json \<Rightarrow> error + json list" where
  "py_iter (JArr xs) = Inr xs"
| "py_iter (JStr s) = Inr (map (\<lambda>c. JStr [c]) s)"
| "py_iter (JObj d) = Inr (map (\<lambda>kv. JStr (fst kv)) d)"
| "py_iter _ = Inl TypeError"

text \<open>A comprehension \<^verbatim>\<open>[f(x) for x in xs]\<close> stops at the first exception.\<close>

fun map_raise :: "('a \<Rightarrow> error + 'b) \<Rightarrow> 'a list \<Rightarrow> error + 'b list" where
  "map_raise f [] = Inr []"
| "map_raise f (x # xs) =
     (case f x of
        Inl e \<Rightarrow> Inl e
      | Inr y \<Rightarrow> (case map_raise f xs of Inl e \<Rightarrow> Inl e | Inr ys \<Rightarrow> Inr (y # ys)))"

section \<open>Action and ActResult\<close>

text \<open>
  \<^verbatim>\<open>class Action\<close>: five attributes read from the dict with \<^verbatim>\<open>get\<close>, and the dict itself
  kept in \<^verbatim>\<open>_raw\<close>.
\<close>

record Action =
  selector :: json
  description :: json
  backend_node_id :: json
  action_method :: json
  arguments :: json
  raw :: dict

definition Action_init :: "dict \<Rightarrow> Action" where
  "Action_init d =
     \<lparr> selector = dict_get d (str ''selector'') JNull,
       description = dict_get d (str ''description'') JNull,
       backend_node_id = dict_get d (str ''backendNodeId'') JNull,
       action_method = dict_get d (str ''method'') JNull,
       arguments = dict_get d (str ''arguments'') (JArr []),
       raw = d \<rparr>"

definition to_dict :: "Action \<Rightarrow> dict" where
  "to_dict a = raw a"

text \<open>\<^verbatim>\<open>Action(x)\<close> for a value of unknown shape: \<^verbatim>\<open>x.get\<close> raises unless \<open>x\<close> is a dict.\<close>

fun Action_of :: "json \<Rightarrow> error + Action" where
  "Action_of (JObj d) = Inr (Action_init d)"
| "Action_of _ = Inl AttributeError"

record ActResult =
  success :: json
  message :: json
  actions :: "Action list"
  result_raw :: json

text \<open>\<^verbatim>\<open>ActResult(data)\<close>, for the value the server returned.\<close>

fun ActResult_of :: "json \<Rightarrow> error + ActResult" where
  "ActResult_of (JObj d) =
     (case py_iter (dict_get d (str ''actions'') (JArr [])) of
        Inl e \<Rightarrow> Inl e
      | Inr xs \<Rightarrow>
          (case map_raise Action_of xs of
             Inl e \<Rightarrow> Inl e
           | Inr as \<Rightarrow>
               Inr \<lparr> success = dict_get d (str ''success'') (JBool False),
                     message = dict_get d (str ''message'') (JStr []),
                     actions = as,
                     result_raw = JObj d \<rparr>))"
| "ActResult_of _ = Inl AttributeError"

section \<open>Strings\<close>

text \<open>
  \<^verbatim>\<open>str.strip()\<close> removes white space at both ends; these are the code points that
  \<^verbatim>\<open>str.isspace\<close> accepts.
\<close>

definition isspace :: "nat \<Rightarrow> bool" where
  "isspace c =
     (c \<in> set [0x09, 0x0A, 0x0B, 0x0C, 0x0D, 0x1C, 0x1D, 0x1E, 0x1F, 0x20, 0x85, 0xA0,
                0x1680, 0x2000, 0x2001, 0x2002, 0x2003, 0x2004, 0x2005, 0x2006, 0x2007,
                0x2008, 0x2009, 0x200A, 0x2028, 0x2029, 0x202F, 0x205F, 0x3000])"

definition strip :: "pystr \<Rightarrow> pystr" where
  "strip s = rev (dropWhile isspace (rev (dropWhile isspace s)))"

definition rstrip_slash :: "pystr \<Rightarrow> pystr" where
  "rstrip_slash s = rev (dropWhile (\<lambda>c. c = of_char (CHR ''/'')) (rev s))"

definition startswith :: "pystr \<Rightarrow> pystr \<Rightarrow> bool" where
  "startswith s p = (take (length p) s = p)"

text \<open>The decimal digits of a status code, as an f-string prints it.\<close>

fun str_nat :: "nat \<Rightarrow> pystr" where
  "str_nat n =
     (if n < 10 then [48 + n]
      else str_nat (n div 10) @ [48 + n mod 10])"

declare str_nat.simps [simp del]

section \<open>The client and the server it talks to\<close>

text \<open>
  \<^verbatim>\<open>class Stagehand\<close>. \<^verbatim>\<open>session_id\<close> is \<^verbatim>\<open>None\<close> until \<^verbatim>\<open>init\<close> stores what the server
  sent under \<^verbatim>\<open>sessionId\<close>, whatever its shape. The httpx client object has no state of
  interest here; what is done with it is recorded as effects.
\<close>

record stagehand =
  server_url :: pystr
  verbose :: int
  timeout :: pyfloat
  session_id :: json

definition Stagehand_init :: "pystr \<Rightarrow> int \<Rightarrow> pyfloat \<Rightarrow> stagehand" where
  "Stagehand_init url v t =
     \<lparr> server_url = rstrip_slash url, verbose = v, timeout = t, session_id = JNull \<rparr>"

text \<open>
  The three URLs, kept in parts: \<^verbatim>\<open>{server_url}/v1/sessions/start\<close>,
  \<^verbatim>\<open>{server_url}/v1/sessions/{session_id}/end\<close> and
  \<^verbatim>\<open>{server_url}/v1/sessions/{session_id}/{method}\<close>.
\<close>

datatype endpoint = SessionsStart | SessionEnd json | SessionMethod json pystr

text \<open>
  What the client prints: the two lifecycle messages, the warning of a failed teardown,
  and \<^verbatim>\<open>[{category}] {message}\<close> for a log event.
\<close>

datatype printed =
    InitializedMsg json
  | ClosedMsg json
  | CloseFailedMsg pystr
  | LogMsg json json

datatype effect =
    HttpPost pystr endpoint "json option"
  | HttpStream pystr endpoint json
  | Print printed
  | ClientClose

text \<open>
  A plain POST either raises a transport error of httpx (the text of the exception is
  kept) or returns a response.
  Of a response the client uses \<^verbatim>\<open>raise_for_status()\<close>, which raises
  \<^verbatim>\<open>httpx.HTTPStatusError\<close> or passes, and \<^verbatim>\<open>json()\<close>, which raises
  \<^verbatim>\<open>JSONDecodeError\<close> on a body that is not JSON.
\<close>

record response =
  raise_for_status :: "pystr option"
  json_body :: "json option"

datatype post_reply = PostRaised pystr | PostResponse response

text \<open>
  A streamed POST either raises a transport error, or returns a response. Its status may
  be an error status (the code, and the body text when it can be read and decoded);
  otherwise its body is a sequence of lines, which ends with the end of the body or with
  a transport error raised while reading.
\<close>

record stream_response =
  status_error :: "(nat \<times> pystr option) option"
  stream_lines :: "pystr list"
  read_error :: "pystr option"

datatype stream_reply = StreamRaised pystr | StreamResponse stream_response

record network =
  post :: "pystr \<Rightarrow> endpoint \<Rightarrow> json option \<Rightarrow> post_reply"
  stream :: "pystr \<Rightarrow> endpoint \<Rightarrow> json \<Rightarrow> stream_reply"

section \<open>Session start and end\<close>

text \<open>
  \<^verbatim>\<open>Stagehand.init\<close>. Every operation returns its outcome (\<open>Inl\<close> the exception raised),
  the client afterwards, and the effects in the order they happened. Printing the
  message of a session opened or closed, or the warning of a failed teardown, is taken
  not to raise.
\<close>

definition init ::
  "network \<Rightarrow> stagehand \<Rightarrow> dict \<Rightarrow> (error + unit) \<times> stagehand \<times> effect list" where
  "init net s options =
     (if truthy (session_id s)
      then (Inl (StagehandError (str ''Already initialized. Call close() first.'')), s, [])
      else
        let session_config =
              dict_merge [(str ''env'', JStr (str ''LOCAL'')), (str ''verbose'', JInt (verbose s))] options;
            req = HttpPost (server_url s) SessionsStart (Some (JObj session_config))
        in
          case post net (server_url s) SessionsStart (Some (JObj session_config)) of
            PostRaised e \<Rightarrow>
              (Inl (StagehandConnectionError (str ''Failed to connect to server: '' @ e)), s, [req])
          | PostResponse r \<Rightarrow>
              (case raise_for_status r of
                 Some e \<Rightarrow>
                   (Inl (StagehandConnectionError (str ''Failed to connect to server: '' @ e)),
                    s, [req])
               | None \<Rightarrow>
                   (case json_body r of
                      None \<Rightarrow> (Inl JSONDecodeError, s, [req])
                    | Some data \<Rightarrow>
                        (case py_get data (str ''sessionId'') JNull of
                           Inl e \<Rightarrow> (Inl e, s, [req])
                         | Inr sid \<Rightarrow>
                             if truthy sid
                             then (Inr (), s\<lparr>session_id := sid\<rparr>,
                                   req # (if verbose s > 0 then [Print (InitializedMsg sid)]
                                          else []))
                             else (Inl (StagehandAPIError
                                          (JStr (str ''Server did not return a sessionId''))),
                                   s\<lparr>session_id := sid\<rparr>, [req])))))"

text \<open>
  \<^verbatim>\<open>Stagehand.close\<close>. The teardown POST is inside \<^verbatim>\<open>try\<close>, with
  \<^verbatim>\<open>except Exception\<close> printing a warning and \<^verbatim>\<open>finally\<close> clearing the session;
  its response is not inspected. Closing the httpx client comes last, and is taken not
  to raise.
\<close>

definition close :: "network \<Rightarrow> stagehand \<Rightarrow> (error + unit) \<times> stagehand \<times> effect list" where
  "close net s =
     (if truthy (session_id s)
      then
        let req = HttpPost (server_url s) (SessionEnd (session_id s)) None;
            said =
              (case post net (server_url s) (SessionEnd (session_id s)) None of
                 PostResponse r \<Rightarrow> ClosedMsg (session_id s)
               | PostRaised e \<Rightarrow> CloseFailedMsg e)
        in (Inr (), s\<lparr>session_id := JNull\<rparr>,
            req # (if verbose s > 0 then [Print said] else []) @ [ClientClose])
      else (Inr (), s, [ClientClose]))"

section \<open>The event stream\<close>

text \<open>
  The body of the loop over \<^verbatim>\<open>response.aiter_lines()\<close> in \<^verbatim>\<open>_execute\<close>. One line either
  lets the loop go on with a pending result, ends it with \<^verbatim>\<open>break\<close>, or raises.
\<close>

datatype step = Continue json | Break json | Raise error

definition after_status :: "json \<Rightarrow> json \<Rightarrow> step" where
  "after_status status result =
     (if status = JStr (str ''finished'') then Break result else Continue result)"

text \<open>The branch for \<^verbatim>\<open>event_type == "system"\<close>.\<close>

fun handle_system :: "json \<Rightarrow> json \<Rightarrow> step" where
  "handle_system result (JObj d) =
     (let status = dict_get d (str ''status'') JNull in
        case map_of d (str ''result'') of
          Some r \<Rightarrow> after_status status r
        | None \<Rightarrow>
            (case map_of d (str ''error'') of
               Some e \<Rightarrow> Raise (StagehandAPIError e)
             | None \<Rightarrow> after_status status result))"
| "handle_system result _ = Raise AttributeError"

text \<open>
  The statement \<^verbatim>\<open>print(f"[{category}] {message}")\<close> formats the two values and writes
  the text to the standard output of the process. It raises when that stream cannot take
  the text: \<^verbatim>\<open>UnicodeEncodeError\<close> for text outside its encoding, a lone surrogate for
  one. What the statement does for each pair of values is the parameter \<open>emit\<close>: \<open>None\<close>
  when the text is written, or the exception raised.
\<close>

type_synonym printer = "printed \<Rightarrow> error option"

text \<open>The branch for \<^verbatim>\<open>event_type == "log"\<close>, for a client of verbosity \<open>v\<close>.\<close>

definition handle_log :: "printer \<Rightarrow> int \<Rightarrow> json \<Rightarrow> json \<Rightarrow> step \<times> printed list" where
  "handle_log emit v result event_data =
     (if v > 0 then
        case py_get event_data (str ''category'') (JStr []) of
          Inl e \<Rightarrow> (Raise e, [])
        | Inr category \<Rightarrow>
            (case py_get event_data (str ''message'') (JStr []) of
               Inl e \<Rightarrow> (Raise e, [])
             | Inr msg \<Rightarrow>
                 (case py_get event_data (str ''level'') (JInt 0) of
                    Inl e \<Rightarrow> (Raise e, [])
                  | Inr level \<Rightarrow>
                      (case py_le_int level v of
                         Inl e \<Rightarrow> (Raise e, [])
                       | Inr b \<Rightarrow>
                           if b then
                             (case emit (LogMsg category msg) of
                                Some e \<Rightarrow> (Raise e, [])
                              | None \<Rightarrow> (Continue result, [LogMsg category msg]))
                           else (Continue result, []))))
      else (Continue result, []))"

text \<open>What is done with a parsed event.\<close>

definition handle_event :: "printer \<Rightarrow> int \<Rightarrow> json \<Rightarrow> json \<Rightarrow> step \<times> printed list" where
  "handle_event emit v result event =
     (case py_get event (str ''type'') JNull of
        Inl e \<Rightarrow> (Raise e, [])
      | Inr event_type \<Rightarrow>
          (case py_get event (str ''data'') (JObj []) of
             Inl e \<Rightarrow> (Raise e, [])
           | Inr event_data \<Rightarrow>
               if event_type = JStr (str ''log'') then handle_log emit v result event_data
               else if event_type = JStr (str ''system'') then (handle_system result event_data, [])
               else (Continue result, [])))"

text \<open>
  \<^verbatim>\<open>json.loads\<close> is the standard library's; it is the parameter \<open>loads\<close>, which gives the
  value parsed or the exception raised.
\<close>

type_synonym parser = "pystr \<Rightarrow> error + json"

text \<open>
  The first half of the loop body: a line that is blank or lacks the prefix is passed
  over, and the rest of the line goes to \<^verbatim>\<open>json.loads\<close>. Of its exceptions
  \<^verbatim>\<open>JSONDecodeError\<close> alone is caught, and the line passed over; any other one leaves the
  loop. The outcome is the exception, or no frame (\<open>None\<close>), or the value parsed.
\<close>

definition decode_line :: "parser \<Rightarrow> pystr \<Rightarrow> error + json option" where
  "decode_line loads line =
     (if strip line = [] \<or> \<not> startswith line (str ''data: '') then Inr None
      else
        case loads (drop 6 line) of
          Inl e \<Rightarrow> if e = JSONDecodeError then Inr None else Inl e
        | Inr event \<Rightarrow> Inr (Some event))"

definition process_line ::
  "parser \<Rightarrow> printer \<Rightarrow> int \<Rightarrow> json \<Rightarrow> pystr \<Rightarrow> step \<times> printed list" where
  "process_line loads emit v result line =
     (case decode_line loads line of
        Inl e \<Rightarrow> (Raise e, [])
      | Inr None \<Rightarrow> (Continue result, [])
      | Inr (Some event) \<Rightarrow> handle_event emit v result event)"

text \<open>The loop: how it ended, and what was printed.\<close>

datatype loop_end = Exhausted json | Broke json | Raised error

fun read_lines ::
  "parser \<Rightarrow> printer \<Rightarrow> int \<Rightarrow> json \<Rightarrow> pystr list \<Rightarrow> loop_end \<times> printed list" where
  "read_lines loads emit v result [] = (Exhausted result, [])"
| "read_lines loads emit v result (line # rest) =
     (case process_line loads emit v result line of
        (Continue r, out) \<Rightarrow>
          (case read_lines loads emit v r rest of (e, out') \<Rightarrow> (e, out @ out'))
      | (Break r, out) \<Rightarrow> (Broke r, out)
      | (Raise e, out) \<Rightarrow> (Raised e, out))"

text \<open>After the loop: \<^verbatim>\<open>if result is None: raise ...\<close>, else \<^verbatim>\<open>return result\<close>.\<close>

definition finish :: "json \<Rightarrow> error + json" where
  "finish result =
     (if result = JNull then Inl (StagehandAPIError (JStr (str ''No result received from server'')))
      else Inr result)"

section \<open>Remote calls\<close>

text \<open>
  \<^verbatim>\<open>Stagehand._execute\<close>. The exceptions of httpx are turned into the module's own; what
  the loop raises is none of them and goes to the caller as it is.
\<close>

definition execute ::
  "parser \<Rightarrow> printer \<Rightarrow> network \<Rightarrow> stagehand \<Rightarrow> pystr \<Rightarrow> json \<Rightarrow>
     (error + json) \<times> stagehand \<times> effect list" where
  "execute loads emit net s method args =
     (if \<not> truthy (session_id s)
      then (Inl (StagehandError (str ''Not initialized. Call init() first.'')), s, [])
      else
        let ep = SessionMethod (session_id s) method;
            req = HttpStream (server_url s) ep args
        in
          case stream net (server_url s) ep args of
            StreamRaised e \<Rightarrow>
              (Inl (StagehandConnectionError (str ''Connection error: '' @ e)), s, [req])
          | StreamResponse r \<Rightarrow>
              (case status_error r of
                 Some (code, body) \<Rightarrow>
                   (Inl (StagehandAPIError
                           (JStr (str ''HTTP '' @ str_nat code @
                                  (case body of None \<Rightarrow> [] | Some t \<Rightarrow> (str '': '') @ t)))),
                    s, [req])
               | None \<Rightarrow>
                   (case read_lines loads emit (verbose s) JNull (stream_lines r) of
                      (Raised e, out) \<Rightarrow> (Inl e, s, req # map Print out)
                    | (Broke result, out) \<Rightarrow> (finish result, s, req # map Print out)
                    | (Exhausted result, out) \<Rightarrow>
                        (case read_error r of
                           Some e \<Rightarrow>
                             (Inl (StagehandConnectionError (str ''Connection error: '' @ e)),
                              s, req # map Print out)
                         | None \<Rightarrow> (finish result, s, req # map Print out)))))"

text \<open>Optional arguments as the values sent: \<^verbatim>\<open>None\<close>, a dict, a string.\<close>

definition opt_dict :: "dict option \<Rightarrow> json" where
  "opt_dict d = (case d of None \<Rightarrow> JNull | Some x \<Rightarrow> JObj x)"

definition opt_str :: "pystr option \<Rightarrow> json" where
  "opt_str t = (case t of None \<Rightarrow> JNull | Some x \<Rightarrow> JStr x)"

text \<open>\<^verbatim>\<open>if x is not None: request_data[k] = x\<close>.\<close>

definition set_if_given :: "dict \<Rightarrow> pystr \<Rightarrow> json option \<Rightarrow> dict" where
  "set_if_given d k x = (case x of None \<Rightarrow> d | Some v \<Rightarrow> dict_set d k v)"

definition goto ::
  "parser \<Rightarrow> printer \<Rightarrow> network \<Rightarrow> stagehand \<Rightarrow> pystr \<Rightarrow> dict option \<Rightarrow> pystr option \<Rightarrow>
     (error + json) \<times> stagehand \<times> effect list" where
  "goto loads emit net s url options frame_id =
     execute loads emit net s (str ''navigate'')
       (JObj [(str ''url'', JStr url), (str ''options'', opt_dict options),
              (str ''frameId'', opt_str frame_id)])"

datatype instruction = Text pystr | Act Action

definition act ::
  "parser \<Rightarrow> printer \<Rightarrow> network \<Rightarrow> stagehand \<Rightarrow> instruction \<Rightarrow> dict option \<Rightarrow>
     pystr option \<Rightarrow> (error + ActResult) \<times> stagehand \<times> effect list" where
  "act loads emit net s instruction options frame_id =
     (let input_data = (case instruction of Act a \<Rightarrow> JObj (to_dict a) | Text t \<Rightarrow> JStr t);
          request_data = [(str ''input'', input_data)];
          request_data = set_if_given request_data (str ''options'') (map_option JObj options);
          request_data = set_if_given request_data (str ''frameId'') (map_option JStr frame_id)
      in
        case execute loads emit net s (str ''act'') (JObj request_data) of
          (Inl e, s', effs) \<Rightarrow> (Inl e, s', effs)
        | (Inr result, s', effs) \<Rightarrow> (ActResult_of result, s', effs))"

definition extract' ::
  "parser \<Rightarrow> printer \<Rightarrow> network \<Rightarrow> stagehand \<Rightarrow> pystr option \<Rightarrow> dict option \<Rightarrow>
     dict option \<Rightarrow> pystr option \<Rightarrow> (error + json) \<times> stagehand \<times> effect list" where
  "extract' loads emit net s instruction schema options frame_id =
     (let request_data = [];
          request_data = set_if_given request_data (str ''instruction'') (map_option JStr instruction);
          request_data = set_if_given request_data (str ''schema'') (map_option JObj schema);
          request_data = set_if_given request_data (str ''options'') (map_option JObj options);
          request_data = set_if_given request_data (str ''frameId'') (map_option JStr frame_id)
      in execute loads emit net s (str ''extract'') (JObj request_data))"

definition observe ::
  "parser \<Rightarrow> printer \<Rightarrow> network \<Rightarrow> stagehand \<Rightarrow> pystr option \<Rightarrow> dict option \<Rightarrow>
     pystr option \<Rightarrow> (error + Action list) \<times> stagehand \<times> effect list" where
  "observe loads emit net s instruction options frame_id =
     (let request_data = [];
          request_data = set_if_given request_data (str ''instruction'') (map_option JStr instruction);
          request_data = set_if_given request_data (str ''options'') (map_option JObj options);
          request_data = set_if_given request_data (str ''frameId'') (map_option JStr frame_id)
      in
        case execute loads emit net s (str ''observe'') (JObj request_data) of
          (Inl e, s', effs) \<Rightarrow> (Inl e, s', effs)
        | (Inr result, s', effs) \<Rightarrow>
            (case py_iter result of
               Inl e \<Rightarrow> (Inl e, s', effs)
             | Inr xs \<Rightarrow> (map_raise Action_of xs, s', effs)))"

text \<open>\<^verbatim>\<open>x or {}\<close> for an optional dict.\<close>

definition or_empty :: "dict option \<Rightarrow> dict" where
  "or_empty x = (case x of None \<Rightarrow> [] | Some d \<Rightarrow> if d \<noteq> [] then d else [])"

definition agent_execute ::
  "parser \<Rightarrow> printer \<Rightarrow> network \<Rightarrow> stagehand \<Rightarrow> pystr \<Rightarrow> dict option \<Rightarrow> dict option \<Rightarrow>
     pystr option \<Rightarrow> (error + json) \<times> stagehand \<times> effect list" where
  "agent_execute loads emit net s instruction agent_config execute_options frame_id =
     (let config = or_empty agent_config;
          exec_opts = or_empty execute_options;
          exec_opts = dict_set exec_opts (str ''instruction'') (JStr instruction)
      in execute loads emit net s (str ''agentExecute'')
           (JObj [(str ''agentConfig'', JObj config), (str ''executeOptions'', JObj exec_opts),
                  (str ''frameId'', opt_str frame_id)]))"

section \<open>What the stream records\<close>

text \<open>
  In the words of the protocol: the result payload that a line carries, when the line is
  a frame of type \<^verbatim>\<open>system\<close> whose data is an object with a \<^verbatim>\<open>result\<close> key; and the
  payloads recorded over a whole stream, in arrival order.
\<close>

definition result_payload :: "parser \<Rightarrow> pystr \<Rightarrow> json option" where
  "result_payload loads line =
     (case decode_line loads line of
        Inr (Some (JObj ev)) \<Rightarrow>
          (if dict_get ev (str ''type'') JNull = JStr (str ''system'')
           then (case dict_get ev (str ''data'') (JObj []) of
                   JObj d \<Rightarrow> map_of d (str ''result'')
                 | _ \<Rightarrow> None)
           else None)
      | _ \<Rightarrow> None)"

definition recorded_results :: "parser \<Rightarrow> pystr list \<Rightarrow> json list" where
  "recorded_results loads ls = List.map_filter (result_payload loads) ls"

text \<open>
  The lines the loop has taken from the stream when it ends: all of them, or those up to
  and including the line at which it stopped.
\<close>

fun lines_read ::
  "parser \<Rightarrow> printer \<Rightarrow> int \<Rightarrow> json \<Rightarrow> pystr list \<Rightarrow> pystr list" where
  "lines_read loads emit v result [] = []"
| "lines_read loads emit v result (line # rest) =
     (case fst (process_line loads emit v result line) of
        Continue r \<Rightarrow> line # lines_read loads emit v r rest
      | _ \<Rightarrow> [line])"

section \<open>Sample streams\<close>

text \<open>A client with a session, at verbosity 1, and one at verbosity 0.\<close>

definition sample_client :: stagehand where
  "sample_client =
     \<lparr> server_url = (str ''http://localhost:3000''), verbose = 1, timeout = Finite 120,
       session_id = JStr (str ''s1'') \<rparr>"

definition quiet_client :: stagehand where
  "quiet_client = sample_client\<lparr>verbose := 0\<rparr>"

text \<open>A server that opens a session \<^verbatim>\<open>s1\<close> and answers every call with the given lines.\<close>

definition serve :: "pystr list \<Rightarrow> network" where
  "serve ls =
     \<lparr> post = (\<lambda>u ep body. PostResponse
                \<lparr> raise_for_status = None,
                  json_body = Some (JObj [(str ''sessionId'', JStr (str ''s1''))]) \<rparr>),
       stream = (\<lambda>u ep args. StreamResponse
                \<lparr> status_error = None, stream_lines = ls, read_error = None \<rparr>) \<rparr>"

text \<open>A server that cannot be reached: every request raises a transport error.\<close>

definition unreachable :: network where
  "unreachable =
     \<lparr> post = (\<lambda>u ep body. PostRaised (str ''All connection attempts failed'')),
       stream = (\<lambda>u ep args. StreamRaised (str ''All connection attempts failed'')) \<rparr>"

text \<open>Lines of an event stream.\<close>

definition line_result_1 :: pystr where
  \<open>line_result_1 = str ''data: {"type": "system", "data": {"result": 1}}''\<close>

definition line_result_2 :: pystr where
  \<open>line_result_2 = str ''data: {"type": "system", "data": {"result": 2}}''\<close>

definition line_result_null :: pystr where
  \<open>line_result_null = str ''data: {"type": "system", "data": {"result": null}}''\<close>

definition line_finished_3 :: pystr where
  \<open>line_finished_3 = str ''data: {"type": "system", "data": {"status": "finished", "result": 3}}''\<close>

definition line_error :: pystr where
  \<open>line_error = str ''data: {"type": "system", "data": {"error": "boom"}}''\<close>

definition line_both :: pystr where
  \<open>line_both = str ''data: {"type": "system", "data": {"result": 2, "error": "boom"}}''\<close>

definition line_log_0 :: pystr where
  \<open>line_log_0 = str ''data: {"type": "log", "data": {"category": "act", "message": "hi", "level": 0}}''\<close>

definition line_log_2 :: pystr where
  \<open>line_log_2 = str ''data: {"type": "log", "data": {"category": "act", "message": "hi", "level": 2}}''\<close>

definition line_comment :: pystr where
  "line_comment = str '': keepalive''"

definition line_garbled :: pystr where
  "line_garbled = str ''data: {oops''"

text \<open>A log frame whose message is the JSON escape of the lone surrogate U+D83D.\<close>

definition line_log_surrogate :: pystr where
  \<open>line_log_surrogate =
     str (''data: {"type": "log", "data": {"message": "'' @ CHR 0x5C # ''ud83d"}}'')\<close>

text \<open>A payload of a thousand opening brackets, and the line that carries it.\<close>

definition deep_payload :: pystr where
  "deep_payload = str (replicate 1000 (CHR ''[''))"

definition line_deep :: pystr where
  "line_deep = str ''data: '' @ deep_payload"

text \<open>
  \<^verbatim>\<open>json.loads\<close> on the payloads of these lines: the value it returns for each of the
  nine that are JSON, and \<^verbatim>\<open>RecursionError\<close> for the thousand brackets. Every other
  string is answered with \<^verbatim>\<open>JSONDecodeError\<close>, as the payload of \<open>line_garbled\<close> is; no
  other string is parsed below.
\<close>

definition system_event :: "dict \<Rightarrow> json" where
  "system_event d = JObj [(str ''type'', JStr (str ''system'')), (str ''data'', JObj d)]"

definition log_event :: "int \<Rightarrow> json" where
  "log_event l =
     JObj [(str ''type'', JStr (str ''log'')),
           (str ''data'', JObj [(str ''category'', JStr (str ''act'')),
                            (str ''message'', JStr (str ''hi'')), (str ''level'', JInt l)])]"

definition surrogate_event :: json where
  "surrogate_event =
     JObj [(str ''type'', JStr (str ''log'')),
           (str ''data'', JObj [(str ''message'', JStr [0xD83D])])]"

definition sample_table :: "(pystr \<times> json) list" where
  "sample_table =
     [(drop 6 line_result_1, system_event [(str ''result'', JInt 1)]),
      (drop 6 line_result_2, system_event [(str ''result'', JInt 2)]),
      (drop 6 line_result_null, system_event [(str ''result'', JNull)]),
      (drop 6 line_finished_3,
         system_event [(str ''status'', JStr (str ''finished'')), (str ''result'', JInt 3)]),
      (drop 6 line_error, system_event [(str ''error'', JStr (str ''boom''))]),
      (drop 6 line_both,
         system_event [(str ''result'', JInt 2), (str ''error'', JStr (str ''boom''))]),
      (drop 6 line_log_0, log_event 0),
      (drop 6 line_log_2, log_event 2),
      (drop 6 line_log_surrogate, surrogate_event)]"

definition sample_loads :: parser where
  "sample_loads s =
     (case map_of sample_table s of
        Some v \<Rightarrow> Inr v
      | None \<Rightarrow> if s = deep_payload then Inl RecursionError else Inl JSONDecodeError)"

text \<open>
  A standard output that encodes in UTF-8: \<^verbatim>\<open>print\<close> raises on a category or message
  that is a string with a surrogate in it, and writes every other text.
\<close>

definition is_surrogate :: "nat \<Rightarrow> bool" where
  "is_surrogate c = (0xD800 \<le> c \<and> c \<le> 0xDFFF)"

fun has_surrogate :: "json \<Rightarrow> bool" where
  "has_surrogate (JStr s) = list_ex is_surrogate s"
| "has_surrogate _ = False"

fun utf8_stdout :: printer where
  "utf8_stdout (LogMsg category msg) =
     (if has_surrogate category \<or> has_surrogate msg then Some UnicodeEncodeError else None)"
| "utf8_stdout _ = None"

section \<open>The Action wrapper\<close>

text \<open>
  C10. For every dictionary \<open>d\<close>, building an Action from \<open>d\<close> and converting it back
  with \<open>to_dict\<close> returns exactly \<open>d\<close>, with every key, modelled as an attribute or not.
\<close>

theorem action_to_dict_roundtrip: "to_dict (Action_init d) = d"
  by (simp add: to_dict_def Action_init_def)

section \<open>Literals\<close>

text \<open>Two literals denote the same string only if they are the same text.\<close>

lemma str_eq_iff [simp]: "str a = str b \<longleftrightarrow> a = b"
  unfolding str_def by (rule inj_map_eq_map) (simp add: inj_on_def)

lemma str_Nil [simp]: "str [] = []"
  by (simp add: str_def)

lemma str_eq_Nil [simp]: "str s = [] \<longleftrightarrow> s = []"
  by (simp add: str_def)

lemma str_append [simp]: "str (a @ b) = str a @ str b"
  by (simp add: str_def)

lemma length_str [simp]: "length (str s) = length s"
  by (simp add: str_def)

lemma take_str [simp]: "take n (str s) = str (take n s)"
  by (simp add: str_def take_map)

lemma drop_str [simp]: "drop n (str s) = str (drop n s)"
  by (simp add: str_def drop_map)

section \<open>Facts about the loop\<close>

text \<open>A line with the prefix is never blank, so the first test of the loop adds nothing.\<close>

lemma startswith_data_not_blank: "startswith line (str ''data: '') \<Longrightarrow> strip line \<noteq> []"
proof -
  assume "startswith line (str ''data: '')"
  then obtain rest where l: "line = str ''data: '' @ rest"
    unfolding startswith_def by (metis append_take_drop_id)
  have "\<not> isspace (of_char (CHR ''d''))" by (simp add: isspace_def)
  then show ?thesis unfolding l strip_def by (simp add: str_def)
qed

text \<open>When a line decodes to no frame, and what the loop body does with each outcome.\<close>

lemma decode_line_None_iff:
  "decode_line loads line = Inr None \<longleftrightarrow>
     (strip line = [] \<or> \<not> startswith line (str ''data: '')
      \<or> loads (drop 6 line) = Inl JSONDecodeError)"
  by (auto simp: decode_line_def split: sum.splits)

lemma decode_line_raises:
  assumes "startswith line (str ''data: '')"
    and "loads (drop 6 line) = Inl e"
    and "e \<noteq> JSONDecodeError"
  shows "decode_line loads line = Inl e"
  using assms startswith_data_not_blank[OF assms(1)] by (simp add: decode_line_def)

lemma process_line_raises:
  "decode_line loads line = Inl e \<Longrightarrow> process_line loads emit v result line = (Raise e, [])"
  by (simp add: process_line_def)

lemma process_line_skip:
  "decode_line loads line = Inr None \<Longrightarrow> process_line loads emit v result line = (Continue result, [])"
  by (simp add: process_line_def)

text \<open>Reading a stream in two parts.\<close>

lemma read_lines_append:
  "read_lines loads emit v r (xs @ ys) =
     (case read_lines loads emit v r xs of
        (Exhausted r', out) \<Rightarrow> (case read_lines loads emit v r' ys of (e, out') \<Rightarrow> (e, out @ out'))
      | (Broke r', out) \<Rightarrow> (Broke r', out)
      | (Raised e, out) \<Rightarrow> (Raised e, out))"
proof (induction xs arbitrary: r)
  case Nil
  then show ?case by (simp split: prod.splits)
next
  case (Cons l xs)
  show ?case
  proof (cases "process_line loads emit v r l")
    case (Pair st out)
    then show ?thesis
      by (cases st) (simp_all add: Cons.IH split: prod.splits loop_end.splits)
  qed
qed

lemma fst_read_lines_append:
  "fst (read_lines loads emit v r (xs @ ys)) =
     (case fst (read_lines loads emit v r xs) of
        Exhausted r' \<Rightarrow> fst (read_lines loads emit v r' ys)
      | Broke r' \<Rightarrow> Broke r'
      | Raised e \<Rightarrow> Raised e)"
proof (cases "read_lines loads emit v r xs")
  case (Pair e out)
  then show ?thesis
    by (cases e; cases "read_lines loads emit v (case e of Exhausted q \<Rightarrow> q | _ \<Rightarrow> r) ys")
       (simp_all add: read_lines_append)
qed

lemma read_lines_after_prefix:
  assumes "fst (read_lines loads emit v r0 xs) = Exhausted p"
  shows "fst (read_lines loads emit v r0 (xs @ ys)) = fst (read_lines loads emit v p ys)"
  using assms
  by (cases "read_lines loads emit v r0 xs"; cases "read_lines loads emit v p ys")
     (simp add: read_lines_append)

lemma read_lines_skip:
  assumes "decode_line loads line = Inr None"
  shows "read_lines loads emit v r (xs @ line # ys) = read_lines loads emit v r (xs @ ys)"
proof -
  have "read_lines loads emit v r' (line # ys) = read_lines loads emit v r' ys" for r'
    using assms by (simp add: process_line_skip split: prod.splits)
  then show ?thesis
    by (simp only: read_lines_append[of loads emit v r xs])
qed

lemma read_lines_without_line:
  assumes "\<And>r. fst (process_line loads emit v r line) = Continue r"
  shows "fst (read_lines loads emit v r0 (xs @ line # ys)) = fst (read_lines loads emit v r0 (xs @ ys))"
proof -
  have one: "fst (read_lines loads emit v r (line # ys)) = fst (read_lines loads emit v r ys)" for r
  proof (cases "process_line loads emit v r line")
    case (Pair st out)
    with assms[of r] have "st = Continue r" by simp
    with Pair show ?thesis by (cases "read_lines loads emit v r ys") simp
  qed
  show ?thesis
    by (simp only: fst_read_lines_append[of loads emit v r0 xs] one)
qed

text \<open>What a parsed event of each type does.\<close>

lemma handle_event_system:
  assumes "dict_get ev (str ''type'') JNull = JStr (str ''system'')"
    and "dict_get ev (str ''data'') (JObj []) = JObj d"
  shows "handle_event emit v pending (JObj ev) =
     (case map_of d (str ''result'') of
        Some r \<Rightarrow> (after_status (dict_get d (str ''status'') JNull) r, [])
      | None \<Rightarrow>
          (case map_of d (str ''error'') of
             Some e \<Rightarrow> (Raise (StagehandAPIError e), [])
           | None \<Rightarrow> (after_status (dict_get d (str ''status'') JNull) pending, [])))"
  using assms by (simp add: handle_event_def split: option.splits)

lemma handle_event_log:
  assumes "dict_get ev (str ''type'') JNull = JStr (str ''log'')"
    and "dict_get ev (str ''data'') (JObj []) = JObj d"
    and "dict_get d (str ''level'') (JInt 0) = JInt l"
  shows "handle_event emit v pending (JObj ev) =
     (if 0 < v \<and> l \<le> v then
        case emit (LogMsg (dict_get d (str ''category'') (JStr []))
                          (dict_get d (str ''message'') (JStr []))) of
          Some e \<Rightarrow> (Raise e, [])
        | None \<Rightarrow>
            (Continue pending,
             [LogMsg (dict_get d (str ''category'') (JStr []))
                     (dict_get d (str ''message'') (JStr []))])
      else (Continue pending, []))"
  using assms by (simp add: handle_event_def handle_log_def)

lemma process_line_system:
  assumes "decode_line loads line = Inr (Some (JObj ev))"
    and "dict_get ev (str ''type'') JNull = JStr (str ''system'')"
    and "dict_get ev (str ''data'') (JObj []) = JObj d"
  shows "process_line loads emit v pending line =
     (case map_of d (str ''result'') of
        Some r \<Rightarrow> (after_status (dict_get d (str ''status'') JNull) r, [])
      | None \<Rightarrow>
          (case map_of d (str ''error'') of
             Some e \<Rightarrow> (Raise (StagehandAPIError e), [])
           | None \<Rightarrow> (after_status (dict_get d (str ''status'') JNull) pending, [])))"
  using assms(1) handle_event_system[OF assms(2,3)] by (simp add: process_line_def)

lemma process_line_log:
  assumes "decode_line loads line = Inr (Some (JObj ev))"
    and "dict_get ev (str ''type'') JNull = JStr (str ''log'')"
    and "dict_get ev (str ''data'') (JObj []) = JObj d"
    and "dict_get d (str ''level'') (JInt 0) = JInt l"
  shows "process_line loads emit v pending line =
     (if 0 < v \<and> l \<le> v then
        case emit (LogMsg (dict_get d (str ''category'') (JStr []))
                          (dict_get d (str ''message'') (JStr []))) of
          Some e \<Rightarrow> (Raise e, [])
        | None \<Rightarrow>
            (Continue pending,
             [LogMsg (dict_get d (str ''category'') (JStr []))
                     (dict_get d (str ''message'') (JStr []))])
      else (Continue pending, []))"
  using assms(1) handle_event_log[OF assms(2-4)] by (simp add: process_line_def)

text \<open>
  The pending result after a line is the payload the line records, or else what was
  pending before it.
\<close>

lemma handle_system_pending:
  "handle_system pending x = Continue r \<or> handle_system pending x = Break r \<Longrightarrow>
   r = (case x of JObj d \<Rightarrow> (case map_of d (str ''result'') of Some p \<Rightarrow> p | None \<Rightarrow> pending) | _ \<Rightarrow> pending)"
  by (cases x) (auto simp: after_status_def Let_def split: option.splits if_splits)

lemma handle_log_pending:
  "fst (handle_log emit v pending x) = Continue r \<or> fst (handle_log emit v pending x) = Break r \<Longrightarrow> r = pending"
  by (auto simp: handle_log_def split: if_splits sum.splits option.splits)

lemma process_line_pending:
  assumes "fst (process_line loads emit v pending line) = Continue r
         \<or> fst (process_line loads emit v pending line) = Break r"
  shows "r = (case result_payload loads line of Some p \<Rightarrow> p | None \<Rightarrow> pending)"
proof (cases "decode_line loads line")
  case (Inl e)
  then show ?thesis using assms by (simp add: process_line_def)
next
  case (Inr frame)
  show ?thesis
  proof (cases frame)
    case None
    then show ?thesis using assms Inr by (simp add: process_line_def result_payload_def)
  next
  case (Some event)
  note Some = Inr[unfolded Some]
  show ?thesis
  proof (cases event)
    case (JObj ev)
    let ?ty = "dict_get ev (str ''type'') JNull" and ?da = "dict_get ev (str ''data'') (JObj [])"
    have he: "handle_event emit v pending event =
       (if ?ty = JStr (str ''log'') then handle_log emit v pending ?da
        else if ?ty = JStr (str ''system'') then (handle_system pending ?da, [])
        else (Continue pending, []))"
      by (simp add: JObj handle_event_def)
    show ?thesis
    proof (cases "?ty = JStr (str ''system'')")
      case True
      then have "handle_system pending ?da = Continue r \<or> handle_system pending ?da = Break r"
        using assms Some he by (simp add: process_line_def)
      from handle_system_pending[OF this] show ?thesis
        using True Some JObj by (simp add: result_payload_def split: json.splits)
    next
      case False
      then have rp: "result_payload loads line = None"
        using Some JObj by (simp add: result_payload_def)
      show ?thesis
      proof (cases "?ty = JStr (str ''log'')")
        case True
        then have "fst (handle_log emit v pending ?da) = Continue r \<or> fst (handle_log emit v pending ?da) = Break r"
          using assms Some he by (simp add: process_line_def)
        from handle_log_pending[OF this] show ?thesis by (simp add: rp)
      next
        case False
        then show ?thesis using assms Some he \<open>?ty \<noteq> JStr (str ''system'')\<close>
          by (simp add: process_line_def rp)
      qed
    qed
  qed (use assms Some in \<open>simp_all add: process_line_def handle_event_def\<close>)
  qed
qed

lemma recorded_results_Cons:
  "recorded_results loads (l # ls) =
     (case result_payload loads l of Some p \<Rightarrow> p # recorded_results loads ls
      | None \<Rightarrow> recorded_results loads ls)"
  by (simp add: recorded_results_def List.map_filter_def split: option.splits)

lemma last_recorded_Cons:
  "last (r0 # recorded_results loads (l # ls)) =
   last ((case result_payload loads l of Some p \<Rightarrow> p | None \<Rightarrow> r0) # recorded_results loads ls)"
  by (simp add: recorded_results_Cons split: option.splits)

lemma read_lines_Exhausted_last:
  "fst (read_lines loads emit v r0 ls) = Exhausted r \<Longrightarrow> r = last (r0 # recorded_results loads ls)"
proof (induction ls arbitrary: r0)
  case Nil
  then show ?case by (simp add: recorded_results_def List.map_filter_def)
next
  case (Cons l ls)
  obtain st out where p: "process_line loads emit v r0 l = (st, out)" by (cases "process_line loads emit v r0 l")
  show ?case
  proof (cases st)
    case (Continue r1)
    then have "fst (read_lines loads emit v r1 ls) = Exhausted r"
      using Cons.prems p by (simp split: prod.splits)
    then have "r = last (r1 # recorded_results loads ls)" by (rule Cons.IH)
    moreover have "r1 = (case result_payload loads l of Some p \<Rightarrow> p | None \<Rightarrow> r0)"
      using process_line_pending[of loads emit v r0 l r1] p Continue by simp
    ultimately show ?thesis by (simp only: last_recorded_Cons)
  qed (use Cons.prems p in simp_all)
qed

lemma read_lines_ended_last:
  "fst (read_lines loads emit v r0 ls) = Broke r \<or> fst (read_lines loads emit v r0 ls) = Exhausted r \<Longrightarrow>
   r = last (r0 # recorded_results loads (lines_read loads emit v r0 ls))"
proof (induction ls arbitrary: r0)
  case Nil
  then show ?case by (simp add: recorded_results_def List.map_filter_def)
next
  case (Cons l ls)
  obtain st out where p: "process_line loads emit v r0 l = (st, out)" by (cases "process_line loads emit v r0 l")
  show ?case
  proof (cases st)
    case (Continue r1)
    then have "fst (read_lines loads emit v r1 ls) = Broke r \<or> fst (read_lines loads emit v r1 ls) = Exhausted r"
      using Cons.prems p by (simp split: prod.splits)
    then have "r = last (r1 # recorded_results loads (lines_read loads emit v r1 ls))" by (rule Cons.IH)
    moreover have "r1 = (case result_payload loads l of Some p \<Rightarrow> p | None \<Rightarrow> r0)"
      using process_line_pending[of loads emit v r0 l r1] p Continue by simp
    moreover have "lines_read loads emit v r0 (l # ls) = l # lines_read loads emit v r1 ls"
      using p Continue by simp
    ultimately show ?thesis by (simp only: last_recorded_Cons)
  next
    case (Break r1)
    then have "r1 = r" using Cons.prems p by simp
    moreover have "r1 = (case result_payload loads l of Some p \<Rightarrow> p | None \<Rightarrow> r0)"
      using process_line_pending[of loads emit v r0 l r1] p Break by simp
    moreover have "lines_read loads emit v r0 (l # ls) = [l]"
      using p Break by simp
    ultimately show ?thesis
      by (simp add: recorded_results_Cons recorded_results_def[of loads "[]"] List.map_filter_def split: option.splits)
  next
    case (Raise e)
    then show ?thesis using Cons.prems p by simp
  qed
qed

text \<open>A call never changes the client; a call with an open stream is decided by the loop.\<close>

lemma execute_state: "fst (snd (execute loads emit net s m args)) = s"
  by (simp add: execute_def Let_def split: stream_reply.splits option.splits prod.splits loop_end.splits)

lemma execute_triple: "\<exists>x effs. execute loads emit net s m args = (x, s, effs)"
  using execute_state[of loads emit net s m args]
  by (cases "execute loads emit net s m args") auto

lemma execute_not_initialized:
  "\<not> truthy (session_id s) \<Longrightarrow>
   execute loads emit net s m args = (Inl (StagehandError (str ''Not initialized. Call init() first.'')), s, [])"
  by (simp add: execute_def)

lemma execute_opened:
  assumes "truthy (session_id s)"
    and "stream net (server_url s) (SessionMethod (session_id s) m) args = StreamResponse resp"
    and "status_error resp = None"
  shows "execute loads emit net s m args =
     (case read_lines loads emit (verbose s) JNull (stream_lines resp) of
        (Raised e, out) \<Rightarrow>
          (Inl e, s, HttpStream (server_url s) (SessionMethod (session_id s) m) args # map Print out)
      | (Broke r, out) \<Rightarrow>
          (finish r, s, HttpStream (server_url s) (SessionMethod (session_id s) m) args # map Print out)
      | (Exhausted r, out) \<Rightarrow>
          (case read_error resp of
             Some e \<Rightarrow> (Inl (StagehandConnectionError (str ''Connection error: '' @ e)), s,
                        HttpStream (server_url s) (SessionMethod (session_id s) m) args # map Print out)
           | None \<Rightarrow> (finish r, s,
                        HttpStream (server_url s) (SessionMethod (session_id s) m) args # map Print out)))"
  using assms by (simp add: execute_def Let_def split: prod.splits loop_end.splits option.splits)

lemma act_state: "fst (snd (act loads emit net s ins options frame_id)) = s"
proof -
  define args where "args = JObj (set_if_given (set_if_given
      [(str ''input'', case ins of Act a \<Rightarrow> JObj (to_dict a) | Text t \<Rightarrow> JStr t)]
      (str ''options'') (map_option JObj options)) (str ''frameId'') (map_option JStr frame_id))"
  obtain x effs where e: "execute loads emit net s (str ''act'') args = (x, s, effs)"
    using execute_triple by blast
  have "act loads emit net s ins options frame_id =
      (case execute loads emit net s (str ''act'') args of
         (Inl e, s', effs) \<Rightarrow> (Inl e, s', effs)
       | (Inr result, s', effs) \<Rightarrow> (ActResult_of result, s', effs))"
    by (simp add: act_def args_def Let_def)
  then show ?thesis by (cases x) (simp_all add: e)
qed

lemma observe_state: "fst (snd (observe loads emit net s instr options frame_id)) = s"
proof -
  define args where "args = JObj (set_if_given (set_if_given (set_if_given []
      (str ''instruction'') (map_option JStr instr)) (str ''options'') (map_option JObj options))
      (str ''frameId'') (map_option JStr frame_id))"
  obtain x effs where e: "execute loads emit net s (str ''observe'') args = (x, s, effs)"
    using execute_triple by blast
  have o: "observe loads emit net s instr options frame_id =
      (case execute loads emit net s (str ''observe'') args of
         (Inl e, s', effs) \<Rightarrow> (Inl e, s', effs)
       | (Inr result, s', effs) \<Rightarrow>
           (case py_iter result of
              Inl e \<Rightarrow> (Inl e, s', effs)
            | Inr xs \<Rightarrow> (map_raise Action_of xs, s', effs)))"
    by (simp add: observe_def args_def Let_def)
  show ?thesis
  proof (cases x)
    case (Inl err)
    then show ?thesis by (simp add: o e)
  next
    case (Inr result)
    then show ?thesis by (cases "py_iter result") (simp_all add: o e)
  qed
qed

lemma init_success_active:
  "fst (init net s options) = Inr () \<Longrightarrow> truthy (session_id (fst (snd (init net s options))))"
  by (auto simp: init_def Let_def split: if_splits post_reply.splits option.splits sum.splits)

section \<open>The sample streams, evaluated\<close>

lemmas line_defs = line_result_1_def line_result_2_def line_result_null_def line_finished_3_def
  line_error_def line_both_def line_log_0_def line_log_2_def line_comment_def line_garbled_def
  line_log_surrogate_def

lemma literal_ne_replicate:
  "length s \<noteq> n \<Longrightarrow> s \<noteq> replicate n c" "length s \<noteq> n \<Longrightarrow> replicate n c \<noteq> s"
  by auto

lemma line_with_prefix:
  "startswith (str ''data: '' @ rest) (str ''data: '')" "strip (str ''data: '' @ rest) \<noteq> []"
  "drop 6 (str ''data: '' @ rest) = rest"
proof -
  show p: "startswith (str ''data: '' @ rest) (str ''data: '')" by (simp add: startswith_def)
  show "strip (str ''data: '' @ rest) \<noteq> []" by (rule startswith_data_not_blank[OF p])
  show "drop 6 (str ''data: '' @ rest) = rest" by simp
qed

lemma startswith_literal: "startswith (str s) (str ''data: '') \<longleftrightarrow> take 6 s = ''data: ''"
proof -
  have len: "length (str ''data: '') = 6" by simp
  show ?thesis unfolding startswith_def len by simp
qed

lemma decode_literal:
  assumes "take 6 s = ''data: ''"
  shows "decode_line loads (str s) =
     (case loads (str (drop 6 s)) of
        Inl e \<Rightarrow> if e = JSONDecodeError then Inr None else Inl e
      | Inr event \<Rightarrow> Inr (Some event))"
proof -
  have p: "startswith (str s) (str ''data: '')" using assms by (simp add: startswith_literal)
  from startswith_data_not_blank[OF p] p show ?thesis by (simp add: decode_line_def)
qed

lemma decode_no_prefix: "take 6 s \<noteq> ''data: '' \<Longrightarrow> decode_line loads (str s) = Inr None"
  by (simp add: decode_line_def startswith_literal)

lemma rstrip_slash_str:
  "rstrip_slash (str s) = str (rev (dropWhile (\<lambda>c. c = CHR ''/'') (rev s)))"
proof -
  have e: "(of_char x = (47::nat)) = (x = CHR ''/'')" for x
  proof -
    have "(47::nat) = of_char (CHR ''/'')" by simp
    then show ?thesis by (simp only: of_char_eq_iff)
  qed
  show ?thesis by (simp add: rstrip_slash_def str_def rev_map dropWhile_map comp_def e)
qed

lemmas decode_defs = decode_literal decode_no_prefix sample_loads_def sample_table_def
  deep_payload_def literal_ne_replicate

lemma printable_act_hi: "utf8_stdout (LogMsg (JStr (str ''act'')) (JStr (str ''hi''))) = None"
  by (simp add: str_def is_surrogate_def)

lemma decode_result_1: "decode_line sample_loads line_result_1 = Inr (Some (system_event [(str ''result'', JInt 1)]))"
  by (simp add: decode_defs line_defs)

lemma decode_result_2: "decode_line sample_loads line_result_2 = Inr (Some (system_event [(str ''result'', JInt 2)]))"
  by (simp add: decode_defs line_defs)

lemma decode_result_null: "decode_line sample_loads line_result_null = Inr (Some (system_event [(str ''result'', JNull)]))"
  by (simp add: decode_defs line_defs)

lemma decode_finished_3: "decode_line sample_loads line_finished_3 = Inr (Some (system_event [(str ''status'', JStr (str ''finished'')), (str ''result'', JInt 3)]))"
  by (simp add: decode_defs line_defs)

lemma decode_error: "decode_line sample_loads line_error = Inr (Some (system_event [(str ''error'', JStr (str ''boom''))]))"
  by (simp add: decode_defs line_defs)

lemma decode_both: "decode_line sample_loads line_both = Inr (Some (system_event [(str ''result'', JInt 2), (str ''error'', JStr (str ''boom''))]))"
  by (simp add: decode_defs line_defs)

lemma decode_log_0: "decode_line sample_loads line_log_0 = Inr (Some (log_event 0))"
  by (simp add: decode_defs line_defs)

lemma decode_log_2: "decode_line sample_loads line_log_2 = Inr (Some (log_event 2))"
  by (simp add: decode_defs line_defs)

lemma decode_garbled: "decode_line sample_loads line_garbled = Inr None"
  by (simp add: decode_defs line_defs)

lemma decode_comment: "decode_line sample_loads line_comment = Inr None"
  by (simp add: decode_defs line_defs)

lemma decode_log_surrogate: "decode_line sample_loads line_log_surrogate = Inr (Some surrogate_event)"
  by (simp add: decode_defs line_defs)

lemma decode_deep: "decode_line sample_loads line_deep = Inl RecursionError"
proof -
  have "map_of sample_table deep_payload = None"
    by (simp add: sample_table_def line_defs deep_payload_def literal_ne_replicate)
  then have "sample_loads deep_payload = Inl RecursionError"
    by (simp add: sample_loads_def)
  then show ?thesis
    by (simp add: decode_line_def line_deep_def line_with_prefix)
qed

lemmas decode_samples = decode_result_1 decode_result_2 decode_result_null decode_finished_3 decode_error
  decode_both decode_log_0 decode_log_2 decode_garbled decode_comment decode_log_surrogate
  decode_deep

lemmas event_defs = process_line_def handle_event_def handle_log_def after_status_def
  system_event_def log_event_def dict_get_def

lemma step_result_1: "process_line sample_loads utf8_stdout v r line_result_1 = (Continue (JInt 1), [])"
  by (simp add: decode_samples event_defs)

lemma step_result_2: "process_line sample_loads utf8_stdout v r line_result_2 = (Continue (JInt 2), [])"
  by (simp add: decode_samples event_defs)

lemma step_result_null: "process_line sample_loads utf8_stdout v r line_result_null = (Continue JNull, [])"
  by (simp add: decode_samples event_defs)

lemma step_finished_3: "process_line sample_loads utf8_stdout v r line_finished_3 = (Break (JInt 3), [])"
  by (simp add: decode_samples event_defs)

lemma step_error: "process_line sample_loads utf8_stdout v r line_error = (Raise (StagehandAPIError (JStr (str ''boom''))), [])"
  by (simp add: decode_samples event_defs)

lemma step_both: "process_line sample_loads utf8_stdout v r line_both = (Continue (JInt 2), [])"
  by (simp add: decode_samples event_defs)

lemma step_log_0: "process_line sample_loads utf8_stdout v r line_log_0 = (Continue r, if 0 < v then [LogMsg (JStr (str ''act'')) (JStr (str ''hi''))] else [])"
  by (simp add: decode_samples event_defs printable_act_hi del: utf8_stdout.simps)

lemma step_log_2: "process_line sample_loads utf8_stdout v r line_log_2 = (Continue r, if 2 \<le> v then [LogMsg (JStr (str ''act'')) (JStr (str ''hi''))] else [])"
  by (auto simp add: decode_samples event_defs printable_act_hi simp del: utf8_stdout.simps)

lemma step_log_surrogate:
  "process_line sample_loads utf8_stdout v r line_log_surrogate =
     (if 0 < v then (Raise UnicodeEncodeError, []) else (Continue r, []))"
  by (simp add: decode_samples event_defs surrogate_event_def is_surrogate_def)

lemma step_deep: "process_line sample_loads emit v r line_deep = (Raise RecursionError, [])"
  by (simp add: process_line_raises[OF decode_deep])

lemma step_garbled: "process_line sample_loads utf8_stdout v r line_garbled = (Continue r, [])"
  by (simp add: decode_samples event_defs)

lemma step_comment: "process_line sample_loads utf8_stdout v r line_comment = (Continue r, [])"
  by (simp add: decode_samples event_defs)

lemmas step_samples = step_result_1 step_result_2 step_result_null step_finished_3 step_error step_both
  step_log_0 step_log_2 step_garbled step_comment step_log_surrogate step_deep

lemma execute_serve:
  "execute loads emit (serve ls) sample_client m args =
     (case read_lines loads emit 1 JNull ls of
        (Raised e, out) \<Rightarrow> (Inl e, sample_client, HttpStream (str ''http://localhost:3000'') (SessionMethod (JStr (str ''s1'')) m) args # map Print out)
      | (Broke r, out) \<Rightarrow> (finish r, sample_client, HttpStream (str ''http://localhost:3000'') (SessionMethod (JStr (str ''s1'')) m) args # map Print out)
      | (Exhausted r, out) \<Rightarrow> (finish r, sample_client, HttpStream (str ''http://localhost:3000'') (SessionMethod (JStr (str ''s1'')) m) args # map Print out))"
  by (simp add: execute_def serve_def sample_client_def split: prod.splits loop_end.splits)

lemma serve_stream:
  "stream (serve ls) u ep args =
     StreamResponse \<lparr> status_error = None, stream_lines = ls, read_error = None \<rparr>"
  by (simp add: serve_def)

lemma sample_client_fields:
  "session_id sample_client = JStr (str ''s1'')" "verbose sample_client = 1"
  "server_url sample_client = str ''http://localhost:3000''"
  "session_id quiet_client = JStr (str ''s1'')" "verbose quiet_client = 0"
  "server_url quiet_client = str ''http://localhost:3000''"
  by (simp_all add: sample_client_def quiet_client_def)

lemma system_event_fields:
  "dict_get [(str ''type'', JStr (str ''system'')), (str ''data'', JObj d)] (str ''type'') JNull = JStr (str ''system'')"
  "dict_get [(str ''type'', JStr (str ''system'')), (str ''data'', JObj d)] (str ''data'') (JObj []) = JObj d"
  by (simp_all add: dict_get_def)

lemma log_event_fields:
  "dict_get [(str ''type'', JStr (str ''log'')), (str ''data'', JObj d)] (str ''type'') JNull = JStr (str ''log'')"
  "dict_get [(str ''type'', JStr (str ''log'')), (str ''data'', JObj d)] (str ''data'') (JObj []) = JObj d"
  by (simp_all add: dict_get_def)

section \<open>System frames\<close>

text \<open>
  C1, as the code has it. If a decoded system frame carries both a result payload and an
  error payload, the frame is handled as a result frame: its result becomes the pending
  result, reading stops only if its status is \<^verbatim>\<open>finished\<close>, and the error payload is not
  raised.
\<close>

theorem both_payloads_result_wins:
  assumes "decode_line loads line = Inr (Some (JObj ev))"
    and "dict_get ev (str ''type'') JNull = JStr (str ''system'')"
    and "dict_get ev (str ''data'') (JObj []) = JObj d"
    and "map_of d (str ''result'') = Some r"
    and "map_of d (str ''error'') = Some e"
  shows "process_line loads emit v pending line =
           (if dict_get d (str ''status'') JNull = JStr (str ''finished'') then Break r else Continue r, [])"
  using assms(4) by (simp add: process_line_system[OF assms(1-3)] after_status_def)

text \<open>The frame of \<open>line_both\<close>, arriving while 1 is pending, leaves 2 pending.\<close>

theorem both_payloads_result_wins_witness:
  "process_line sample_loads utf8_stdout 1 (JInt 1) line_both = (Continue (JInt 2), [])"
proof -
  have d: "decode_line sample_loads line_both = Inr (Some (JObj [(str ''type'', JStr (str ''system'')),
      (str ''data'', JObj [(str ''result'', JInt 2), (str ''error'', JStr (str ''boom''))])]))"
    using decode_both by (simp add: system_event_def)
  show ?thesis
    using both_payloads_result_wins[OF d system_event_fields, where r = "JInt 2"
        and e = "JStr (str ''boom'')" and v = 1 and pending = "JInt 1"]
    by (simp add: dict_get_def)
qed

text \<open>
  C1 as stated fails: a call whose stream is the one frame of \<open>line_both\<close>, which carries
  the result 2 and the error \<^verbatim>\<open>boom\<close>, returns 2.
\<close>

theorem both_payloads_counterexample:
  "decode_line sample_loads line_both
     = Inr (Some (system_event [(str ''result'', JInt 2), (str ''error'', JStr (str ''boom''))]))
   \<and> fst (execute sample_loads utf8_stdout (serve [line_both]) sample_client (str ''act'') (JObj [])) = Inr (JInt 2)"
  by (simp add: decode_both execute_serve step_samples finish_def)

text \<open>
  C3, as the code has it. For a line that decodes to a system frame: a result payload
  replaces whatever was pending; when the loop ends, by \<^verbatim>\<open>break\<close> or at the end of the
  body, the pending result is the last payload recorded by the lines read (the initial
  value if none was); a status \<^verbatim>\<open>finished\<close> makes this line the last one read; and a
  frame with an error payload and no result payload fails the call with that payload,
  whatever result the lines before it left pending.
\<close>

theorem system_frame_handling:
  assumes line: "decode_line loads line = Inr (Some (JObj ev))"
    and ty: "dict_get ev (str ''type'') JNull = JStr (str ''system'')"
    and da: "dict_get ev (str ''data'') (JObj []) = JObj d"
  shows "(map_of d (str ''result'') = Some r \<longrightarrow>
            process_line loads emit v pending line =
              (if dict_get d (str ''status'') JNull = JStr (str ''finished'') then Break r else Continue r, []))
       \<and> (fst (read_lines loads emit v r0 ls) = Broke r' \<or> fst (read_lines loads emit v r0 ls) = Exhausted r' \<longrightarrow>
            r' = last (r0 # recorded_results loads (lines_read loads emit v r0 ls)))
       \<and> (dict_get d (str ''status'') JNull = JStr (str ''finished'') \<longrightarrow>
            lines_read loads emit v pending (line # rest) = [line]
            \<and> read_lines loads emit v pending (line # rest) = read_lines loads emit v pending [line])
       \<and> (map_of d (str ''result'') = None \<and> map_of d (str ''error'') = Some e
            \<and> truthy (session_id s)
            \<and> stream net (server_url s) (SessionMethod (session_id s) m) args = StreamResponse resp
            \<and> status_error resp = None
            \<and> stream_lines resp = xs @ line # rest
            \<and> fst (read_lines loads emit (verbose s) JNull xs) = Exhausted pending \<longrightarrow>
            fst (execute loads emit net s m args) = Inl (StagehandAPIError e))"
proof (intro conjI impI)
  assume "map_of d (str ''result'') = Some r"
  then show "process_line loads emit v pending line =
      (if dict_get d (str ''status'') JNull = JStr (str ''finished'') then Break r else Continue r, [])"
    by (simp add: process_line_system[OF line ty da] after_status_def)
next
  assume "fst (read_lines loads emit v r0 ls) = Broke r' \<or> fst (read_lines loads emit v r0 ls) = Exhausted r'"
  then show "r' = last (r0 # recorded_results loads (lines_read loads emit v r0 ls))"
    by (rule read_lines_ended_last)
next
  assume fin: "dict_get d (str ''status'') JNull = JStr (str ''finished'')"
  have "\<exists>x out. process_line loads emit v pending line = (x, out) \<and> (\<forall>q. x \<noteq> Continue q)"
    using fin by (simp add: process_line_system[OF line ty da] after_status_def split: option.splits)
  then obtain x out where p: "process_line loads emit v pending line = (x, out)" and x: "\<forall>q. x \<noteq> Continue q"
    by blast
  from p x show "lines_read loads emit v pending (line # rest) = [line]"
    by (cases x) simp_all
  from p x show "read_lines loads emit v pending (line # rest) = read_lines loads emit v pending [line]"
    by (cases x) simp_all
next
  assume a: "map_of d (str ''result'') = None \<and> map_of d (str ''error'') = Some e
            \<and> truthy (session_id s)
            \<and> stream net (server_url s) (SessionMethod (session_id s) m) args = StreamResponse resp
            \<and> status_error resp = None
            \<and> stream_lines resp = xs @ line # rest
            \<and> fst (read_lines loads emit (verbose s) JNull xs) = Exhausted pending"
  then have "process_line loads emit (verbose s) pending line = (Raise (StagehandAPIError e), [])"
    by (simp add: process_line_system[OF line ty da])
  then have "fst (read_lines loads emit (verbose s) pending (line # rest)) = Raised (StagehandAPIError e)"
    by simp
  moreover have "fst (read_lines loads emit (verbose s) JNull (xs @ line # rest))
      = fst (read_lines loads emit (verbose s) pending (line # rest))"
    using a by (intro read_lines_after_prefix) simp
  ultimately have "fst (read_lines loads emit (verbose s) JNull (stream_lines resp)) = Raised (StagehandAPIError e)"
    using a by simp
  moreover have "truthy (session_id s)"
    "stream net (server_url s) (SessionMethod (session_id s) m) args = StreamResponse resp"
    "status_error resp = None" using a by simp_all
  ultimately show "fst (execute loads emit net s m args) = Inl (StagehandAPIError e)"
    by (cases "read_lines loads emit (verbose s) JNull (stream_lines resp)") (simp add: execute_opened)
qed

text \<open>
  On the samples: a second result replaces the first; of four lines the loop reads three
  and ends with the result of the third; nothing is read after the finished frame; an
  error frame after a result frame fails the call.
\<close>

theorem system_frame_handling_witness:
  "process_line sample_loads utf8_stdout 1 (JInt 1) line_result_2 = (Continue (JInt 2), [])
   \<and> JInt 3 = last (JNull # recorded_results sample_loads
                 (lines_read sample_loads utf8_stdout 1 JNull [line_result_1, line_result_2, line_finished_3, line_error]))
   \<and> lines_read sample_loads utf8_stdout 1 (JInt 2) [line_finished_3, line_error] = [line_finished_3]
   \<and> fst (execute sample_loads utf8_stdout (serve [line_result_1, line_error, line_finished_3]) sample_client
            (str ''act'') (JObj [])) = Inl (StagehandAPIError (JStr (str ''boom'')))"
proof (intro conjI)
  have d2: "decode_line sample_loads line_result_2 = Inr (Some (JObj [(str ''type'', JStr (str ''system'')), (str ''data'', JObj [(str ''result'', JInt 2)])]))"
    by (simp add: decode_defs line_defs system_event_def)
  show "process_line sample_loads utf8_stdout 1 (JInt 1) line_result_2 = (Continue (JInt 2), [])"
    using system_frame_handling[OF d2 system_event_fields, where r = "JInt 2" and v = 1 and pending = "JInt 1"]
    by (simp add: dict_get_def)
next
  have d: "decode_line sample_loads line_finished_3 = Inr (Some (JObj [(str ''type'', JStr (str ''system'')), (str ''data'', JObj [(str ''status'', JStr (str ''finished'')), (str ''result'', JInt 3)])]))"
    using decode_finished_3 by (simp add: system_event_def)
  have "fst (read_lines sample_loads utf8_stdout 1 JNull [line_result_1, line_result_2, line_finished_3, line_error]) = Broke (JInt 3)"
    by (simp add: step_samples event_defs decode_defs line_defs)
  then show "JInt 3 = last (JNull # recorded_results sample_loads
                 (lines_read sample_loads utf8_stdout 1 JNull [line_result_1, line_result_2, line_finished_3, line_error]))"
    using system_frame_handling[OF d system_event_fields, where v = 1 and ?r0.0 = JNull
        and ls = "[line_result_1, line_result_2, line_finished_3, line_error]" and r' = "JInt 3"]
    by simp
  show "lines_read sample_loads utf8_stdout 1 (JInt 2) [line_finished_3, line_error] = [line_finished_3]"
    using system_frame_handling[OF d system_event_fields, where v = 1 and pending = "JInt 2"
        and rest = "[line_error]"]
    by (simp add: dict_get_def)
next
  have d: "decode_line sample_loads line_error = Inr (Some (JObj [(str ''type'', JStr (str ''system'')), (str ''data'', JObj [(str ''error'', JStr (str ''boom''))])]))"
    using decode_error by (simp add: system_event_def)
  show "fst (execute sample_loads utf8_stdout (serve [line_result_1, line_error, line_finished_3]) sample_client
            (str ''act'') (JObj [])) = Inl (StagehandAPIError (JStr (str ''boom'')))"
    using system_frame_handling[OF d system_event_fields,
        where e = "JStr (str ''boom'')" and s = sample_client
          and net = "serve [line_result_1, line_error, line_finished_3]"
          and m = "str ''act''" and args = "JObj []" and xs = "[line_result_1]"
          and rest = "[line_finished_3]" and pending = "JInt 1"
          and resp = "\<lparr> status_error = None,
                        stream_lines = [line_result_1, line_error, line_finished_3],
                        read_error = None \<rparr>"]
    by (simp add: serve_stream sample_client_fields step_samples dict_get_def)
qed

text \<open>
  C3 as stated fails in its last part: \<open>line_both\<close> carries an error and arrives after a
  result frame, and the call returns the result 2 of that very frame.
\<close>

theorem error_frame_with_result_counterexample:
  "fst (execute sample_loads utf8_stdout (serve [line_result_1, line_both]) sample_client (str ''act'') (JObj []))
     = Inr (JInt 2)"
  by (simp add: execute_serve step_samples finish_def)

section \<open>The end of the stream\<close>

text \<open>
  C2, as the code has it. When the stream of a call is read to the end of its body (no
  line stops the loop or raises, and reading raises no transport error), the call
  succeeds with the last recorded result payload if there is one and it is not \<^verbatim>\<open>null\<close>;
  if no payload was recorded, or the last one is \<^verbatim>\<open>null\<close>, it fails with
  \<^verbatim>\<open>StagehandAPIError("No result received from server")\<close>.
\<close>

theorem stream_closed_outcome:
  assumes "truthy (session_id s)"
    and "stream net (server_url s) (SessionMethod (session_id s) m) args = StreamResponse resp"
    and "status_error resp = None"
    and "read_error resp = None"
    and "\<exists>r. fst (read_lines loads emit (verbose s) JNull (stream_lines resp)) = Exhausted r"
  shows "fst (execute loads emit net s m args) =
           (if recorded_results loads (stream_lines resp) = []
               \<or> last (recorded_results loads (stream_lines resp)) = JNull
            then Inl (StagehandAPIError (JStr (str ''No result received from server'')))
            else Inr (last (recorded_results loads (stream_lines resp))))"
proof -
  from assms(5) obtain r where r: "fst (read_lines loads emit (verbose s) JNull (stream_lines resp)) = Exhausted r"
    by blast
  have "fst (execute loads emit net s m args) = finish r"
    using r assms(4)
    by (cases "read_lines loads emit (verbose s) JNull (stream_lines resp)")
       (simp add: execute_opened[OF assms(1-3)])
  moreover have "r = last (JNull # recorded_results loads (stream_lines resp))"
    using r by (rule read_lines_Exhausted_last)
  ultimately show ?thesis by (simp add: finish_def)
qed

text \<open>
  Two results with a log line between them give the second; a log line and a comment
  give the error.
\<close>

theorem stream_closed_outcome_witness:
  "fst (execute sample_loads utf8_stdout (serve [line_result_1, line_log_0, line_result_2]) sample_client
         (str ''act'') (JObj [])) = Inr (JInt 2)
   \<and> fst (execute sample_loads utf8_stdout (serve [line_log_0, line_comment]) sample_client
         (str ''act'') (JObj [])) = Inl (StagehandAPIError (JStr (str ''No result received from server'')))"
proof (intro conjI)
  have x: "\<exists>r. fst (read_lines sample_loads utf8_stdout (verbose sample_client) JNull
       (stream_lines \<lparr> status_error = None, stream_lines = [line_result_1, line_log_0, line_result_2],
            read_error = None \<rparr>)) = Exhausted r"
    by (simp add: step_samples sample_client_fields)
  have t: "truthy (session_id sample_client)" by (simp add: sample_client_fields)
  show "fst (execute sample_loads utf8_stdout (serve [line_result_1, line_log_0, line_result_2]) sample_client
         (str ''act'') (JObj [])) = Inr (JInt 2)"
    using stream_closed_outcome[OF t serve_stream _ _ x, where m = "str ''act''" and args = "JObj []"]
    by (simp add: recorded_results_def List.map_filter_def result_payload_def decode_samples
        system_event_def log_event_def dict_get_def)
next
  have x: "\<exists>r. fst (read_lines sample_loads utf8_stdout (verbose sample_client) JNull
       (stream_lines \<lparr> status_error = None, stream_lines = [line_log_0, line_comment],
            read_error = None \<rparr>)) = Exhausted r"
    by (simp add: step_samples sample_client_fields)
  have t: "truthy (session_id sample_client)" by (simp add: sample_client_fields)
  show "fst (execute sample_loads utf8_stdout (serve [line_log_0, line_comment]) sample_client
         (str ''act'') (JObj [])) = Inl (StagehandAPIError (JStr (str ''No result received from server'')))"
    using stream_closed_outcome[OF t serve_stream _ _ x, where m = "str ''act''" and args = "JObj []"]
    by (simp add: recorded_results_def List.map_filter_def result_payload_def decode_samples
        system_event_def log_event_def dict_get_def)
qed

text \<open>
  C2 as stated fails: the stream of \<open>line_result_1\<close> and \<open>line_result_null\<close> records two
  result payloads and is read to its end, and the call fails for want of a result.
\<close>

theorem null_result_counterexample:
  "recorded_results sample_loads [line_result_1, line_result_null] = [JInt 1, JNull]
   \<and> fst (read_lines sample_loads utf8_stdout 1 JNull [line_result_1, line_result_null]) = Exhausted JNull
   \<and> fst (execute sample_loads utf8_stdout (serve [line_result_1, line_result_null]) sample_client
            (str ''navigate'') (JObj []))
       = Inl (StagehandAPIError (JStr (str ''No result received from server'')))"
  by (simp add: execute_serve step_samples finish_def recorded_results_def List.map_filter_def
      result_payload_def decode_samples system_event_def dict_get_def)

section \<open>Lines that are not frames\<close>

text \<open>
  A line that is blank, or does not start with \<^verbatim>\<open>data: \<close>, or whose rest after the prefix
  \<^verbatim>\<open>json.loads\<close> rejects with \<^verbatim>\<open>JSONDecodeError\<close>, decodes to no frame: the loop goes on
  with the next line, the pending result as it was and nothing printed, and the call ends
  as it would without the line, wherever in the stream the line stands.
\<close>

lemma non_frame_line_skipped:
  assumes nf: "strip line = [] \<or> \<not> startswith line (str ''data: '')
               \<or> loads (drop 6 line) = Inl JSONDecodeError"
    and r: "stream net (server_url s) (SessionMethod (session_id s) m) args = StreamResponse resp"
    and l: "stream_lines resp = xs @ line # ys"
    and r': "stream net' (server_url s) (SessionMethod (session_id s) m) args
               = StreamResponse (resp\<lparr>stream_lines := xs @ ys\<rparr>)"
  shows "process_line loads emit v pending line = (Continue pending, [])
       \<and> read_lines loads emit v pending (xs @ line # ys) = read_lines loads emit v pending (xs @ ys)
       \<and> execute loads emit net s m args = execute loads emit net' s m args"
proof -
  have d: "decode_line loads line = Inr None" using nf by (simp add: decode_line_None_iff)
  have "read_lines loads emit (verbose s) JNull (stream_lines resp)
      = read_lines loads emit (verbose s) JNull (xs @ ys)"
    by (simp only: l read_lines_skip[OF d])
  then have "execute loads emit net s m args = execute loads emit net' s m args"
    by (cases "status_error resp")
       (simp_all add: execute_def r r' Let_def split: prod.splits loop_end.splits)
  then show ?thesis
    using d by (simp add: process_line_skip read_lines_skip)
qed

text \<open>
  C4. The claim is that a line whose payload fails to parse is passed over and never
  ends the call. The loop catches \<^verbatim>\<open>JSONDecodeError\<close> only: on the payload of a thousand
  opening brackets \<^verbatim>\<open>json.loads\<close> raises \<^verbatim>\<open>RecursionError\<close>, decoding the line raises it,
  and a call that has a result pending and a finished frame still to come fails with it;
  without the line the same call returns 3.
\<close>

theorem unparsable_line_fails_call:
  "decode_line sample_loads line_deep = Inl RecursionError
   \<and> fst (execute sample_loads utf8_stdout (serve [line_result_1, line_deep, line_finished_3])
            sample_client (str ''act'') (JObj [])) = Inl RecursionError
   \<and> fst (execute sample_loads utf8_stdout (serve [line_result_1, line_finished_3])
            sample_client (str ''act'') (JObj [])) = Inr (JInt 3)"
  by (simp add: decode_deep execute_serve step_samples finish_def)

section \<open>Log frames\<close>

text \<open>
  C5, as the code has it. A decoded log frame whose data is an object with an integer
  level \<open>l\<close> (0 when the key is missing) is printed, for a client of verbosity \<open>v\<close>,
  exactly when \<open>0 < v\<close> and \<open>l \<le> v\<close>, provided that printing it, when it is printed,
  raises nothing. The loop then goes on with the pending result as it was, and ends as
  it would without the line.
\<close>

theorem log_frame_emitted_iff:
  assumes "decode_line loads line = Inr (Some (JObj ev))"
    and "dict_get ev (str ''type'') JNull = JStr (str ''log'')"
    and "dict_get ev (str ''data'') (JObj []) = JObj d"
    and "dict_get d (str ''level'') (JInt 0) = JInt l"
    and "0 < v \<and> l \<le> v \<longrightarrow>
           emit (LogMsg (dict_get d (str ''category'') (JStr []))
                        (dict_get d (str ''message'') (JStr []))) = None"
  shows "process_line loads emit v pending line =
           (Continue pending,
            if 0 < v \<and> l \<le> v
            then [LogMsg (dict_get d (str ''category'') (JStr []))
                         (dict_get d (str ''message'') (JStr []))]
            else [])
       \<and> fst (read_lines loads emit v r0 (xs @ line # ys))
           = fst (read_lines loads emit v r0 (xs @ ys))"
proof
  have p: "process_line loads emit v r line =
           (Continue r,
            if 0 < v \<and> l \<le> v
            then [LogMsg (dict_get d (str ''category'') (JStr []))
                         (dict_get d (str ''message'') (JStr []))]
            else [])" for r
    using assms(5) by (simp add: process_line_log[OF assms(1-4)])
  show "process_line loads emit v pending line =
           (Continue pending,
            if 0 < v \<and> l \<le> v
            then [LogMsg (dict_get d (str ''category'') (JStr []))
                         (dict_get d (str ''message'') (JStr []))]
            else [])"
    by (rule p)
  have "fst (process_line loads emit v r line) = Continue r" for r
    by (simp add: p)
  then show "fst (read_lines loads emit v r0 (xs @ line # ys))
      = fst (read_lines loads emit v r0 (xs @ ys))"
    by (rule read_lines_without_line)
qed

text \<open>
  On an output in UTF-8: levels 0 and 2 at verbosity 1, level 2 at verbosity 2, level 0
  at verbosity 0.
\<close>

theorem log_frame_emitted_iff_witness:
  "process_line sample_loads utf8_stdout 1 (JInt 1) line_log_0
     = (Continue (JInt 1), [LogMsg (JStr (str ''act'')) (JStr (str ''hi''))])
   \<and> process_line sample_loads utf8_stdout 1 (JInt 1) line_log_2 = (Continue (JInt 1), [])
   \<and> process_line sample_loads utf8_stdout 2 (JInt 1) line_log_2
     = (Continue (JInt 1), [LogMsg (JStr (str ''act'')) (JStr (str ''hi''))])
   \<and> process_line sample_loads utf8_stdout 0 (JInt 1) line_log_0 = (Continue (JInt 1), [])"
proof -
  have d0: "decode_line sample_loads line_log_0 = Inr (Some (JObj [(str ''type'', JStr (str ''log'')),
        (str ''data'', JObj [(str ''category'', JStr (str ''act'')),
                             (str ''message'', JStr (str ''hi'')), (str ''level'', JInt 0)])]))"
    using decode_log_0 by (simp add: log_event_def)
  have d2: "decode_line sample_loads line_log_2 = Inr (Some (JObj [(str ''type'', JStr (str ''log'')),
        (str ''data'', JObj [(str ''category'', JStr (str ''act'')),
                             (str ''message'', JStr (str ''hi'')), (str ''level'', JInt 2)])]))"
    using decode_log_2 by (simp add: log_event_def)
  have l0: "dict_get [(str ''category'', JStr (str ''act'')), (str ''message'', JStr (str ''hi'')),
                      (str ''level'', JInt 0)] (str ''level'') (JInt 0) = JInt 0"
    by (simp add: dict_get_def)
  have l2: "dict_get [(str ''category'', JStr (str ''act'')), (str ''message'', JStr (str ''hi'')),
                      (str ''level'', JInt 2)] (str ''level'') (JInt 0) = JInt 2"
    by (simp add: dict_get_def)
  show ?thesis
    using log_frame_emitted_iff[OF d0 log_event_fields l0, where v = 1 and pending = "JInt 1"
        and emit = utf8_stdout]
      log_frame_emitted_iff[OF d2 log_event_fields l2, where v = 1 and pending = "JInt 1"
        and emit = utf8_stdout]
      log_frame_emitted_iff[OF d2 log_event_fields l2, where v = 2 and pending = "JInt 1"
        and emit = utf8_stdout]
      log_frame_emitted_iff[OF d0 log_event_fields l0, where v = 0 and pending = "JInt 1"
        and emit = utf8_stdout]
    by (simp add: dict_get_def printable_act_hi del: utf8_stdout.simps)
qed

text \<open>
  C5 as stated fails at verbosity 0: the level 0 of \<open>line_log_0\<close> is not above it, and
  the client prints nothing.
\<close>

theorem log_at_verbosity_0_counterexample:
  "decode_line sample_loads line_log_0 = Inr (Some (log_event 0))
   \<and> (0::int) \<le> verbose quiet_client
   \<and> snd (process_line sample_loads utf8_stdout (verbose quiet_client) JNull line_log_0) = []"
  by (simp add: decode_log_0 step_samples sample_client_fields)

section \<open>The session\<close>

text \<open>
  C6. While the client has no session (\<^verbatim>\<open>session_id\<close> is \<^verbatim>\<open>None\<close>, the empty string, or
  any other false value), each of the five calls fails with
  \<^verbatim>\<open>StagehandError("Not initialized. Call init() first.")\<close>, whatever its arguments and
  whatever the server would answer; the client is unchanged and no request is sent.
\<close>

theorem operate_without_session:
  assumes "\<not> truthy (session_id s)"
  shows "goto loads emit net s url options frame_id
           = (Inl (StagehandError (str ''Not initialized. Call init() first.'')), s, [])
       \<and> act loads emit net s ins options frame_id
           = (Inl (StagehandError (str ''Not initialized. Call init() first.'')), s, [])
       \<and> extract' loads emit net s instr schema options frame_id
           = (Inl (StagehandError (str ''Not initialized. Call init() first.'')), s, [])
       \<and> observe loads emit net s instr options frame_id
           = (Inl (StagehandError (str ''Not initialized. Call init() first.'')), s, [])
       \<and> agent_execute loads emit net s task agent_config execute_options frame_id
           = (Inl (StagehandError (str ''Not initialized. Call init() first.'')), s, [])"
  using assms
  by (simp add: goto_def act_def extract'_def observe_def agent_execute_def
      execute_not_initialized Let_def)

text \<open>A fresh client, and a client whose session identifier is the empty string.\<close>

theorem operate_without_session_witness:
  "\<not> truthy (session_id (Stagehand_init (str ''http://localhost:3000/'') 0 (Finite 120)))
   \<and> goto sample_loads utf8_stdout (serve [line_finished_3])
        (Stagehand_init (str ''http://localhost:3000/'') 0 (Finite 120)) (str ''https://example.com'') None None
      = (Inl (StagehandError (str ''Not initialized. Call init() first.'')),
         Stagehand_init (str ''http://localhost:3000/'') 0 (Finite 120), [])
   \<and> act sample_loads utf8_stdout (serve [line_finished_3]) (sample_client\<lparr>session_id := JStr []\<rparr>)
        (Text (str ''click the login button'')) None None
      = (Inl (StagehandError (str ''Not initialized. Call init() first.'')),
         sample_client\<lparr>session_id := JStr []\<rparr>, [])"
proof -
  have a: "\<not> truthy (session_id (Stagehand_init (str ''http://localhost:3000/'') 0 (Finite 120)))"
    by (simp add: Stagehand_init_def)
  have b: "\<not> truthy (session_id (sample_client\<lparr>session_id := JStr []\<rparr>))"
    by simp
  show ?thesis
    using a operate_without_session[OF a, where loads = sample_loads
        and net = "serve [line_finished_3]" and url = "str ''https://example.com''"
        and options = None and frame_id = None]
      operate_without_session[OF b, where loads = sample_loads
        and net = "serve [line_finished_3]" and ins = "Text (str ''click the login button'')"
        and options = None and frame_id = None]
    by simp
qed

text \<open>
  C7. \<^verbatim>\<open>init\<close> on a client that has a session fails with
  \<^verbatim>\<open>StagehandError("Already initialized. Call close() first.")\<close>, sends nothing and leaves
  the client, and so its session identifier, as it was; in particular a second \<^verbatim>\<open>init\<close>
  right after one that succeeded.
\<close>

theorem init_while_active_fails:
  "(truthy (session_id s) \<longrightarrow>
      init net s options = (Inl (StagehandError (str ''Already initialized. Call close() first.'')), s, []))
   \<and> (fst (init net0 s0 options0) = Inr () \<longrightarrow>
        init net (fst (snd (init net0 s0 options0))) options
          = (Inl (StagehandError (str ''Already initialized. Call close() first.'')),
             fst (snd (init net0 s0 options0)), []))"
  using init_success_active[of net0 s0 options0] by (simp add: init_def)

text \<open>A first \<^verbatim>\<open>init\<close> that opens session \<^verbatim>\<open>s1\<close>, and a second one on the client it leaves.\<close>

theorem init_while_active_fails_witness:
  "init (serve []) (Stagehand_init (str ''http://localhost:3000/'') 1 (Finite 120)) []
     = (Inr (), sample_client,
        [HttpPost (str ''http://localhost:3000'') SessionsStart
           (Some (JObj [(str ''env'', JStr (str ''LOCAL'')), (str ''verbose'', JInt 1)])),
         Print (InitializedMsg (JStr (str ''s1'')))])
   \<and> init unreachable sample_client [(str ''env'', JStr (str ''BROWSERBASE''))]
     = (Inl (StagehandError (str ''Already initialized. Call close() first.'')), sample_client, [])"
proof -
  have i: "init (serve []) (Stagehand_init (str ''http://localhost:3000/'') 1 (Finite 120)) []
     = (Inr (), sample_client,
        [HttpPost (str ''http://localhost:3000'') SessionsStart
           (Some (JObj [(str ''env'', JStr (str ''LOCAL'')), (str ''verbose'', JInt 1)])),
         Print (InitializedMsg (JStr (str ''s1'')))])"
    by (simp add: init_def Stagehand_init_def rstrip_slash_str serve_def dict_merge_def
        dict_get_def sample_client_def)
  show ?thesis
    using i init_while_active_fails[where ?s0.0 = "Stagehand_init (str ''http://localhost:3000/'') 1 (Finite 120)"
        and ?net0.0 = "serve []" and ?options0.0 = "[]" and net = unreachable
        and options = "[(str ''env'', JStr (str ''BROWSERBASE''))]" and s = sample_client]
    by simp
qed



text \<open>
  C9. None of the five calls changes the client, whether it returns a result or raises:
  the session identifier after the call is the one before it.
\<close>

theorem operate_keeps_client:
  "fst (snd (goto loads emit net s url options frame_id)) = s
   \<and> fst (snd (act loads emit net s ins options frame_id)) = s
   \<and> fst (snd (extract' loads emit net s instr schema options frame_id)) = s
   \<and> fst (snd (observe loads emit net s instr options frame_id)) = s
   \<and> fst (snd (agent_execute loads emit net s task agent_config execute_options frame_id)) = s"
  by (simp add: goto_def extract'_def agent_execute_def execute_state Let_def act_state
      observe_state)

text \<open>A navigation that the server fails with an error frame.\<close>

theorem operate_keeps_client_witness:
  "goto sample_loads utf8_stdout (serve [line_result_1, line_error]) sample_client (str ''https://example.com'') None None
     = (Inl (StagehandAPIError (JStr (str ''boom''))), sample_client,
        [HttpStream (str ''http://localhost:3000'') (SessionMethod (JStr (str ''s1'')) (str ''navigate''))
           (JObj [(str ''url'', JStr (str ''https://example.com'')), (str ''options'', JNull), (str ''frameId'', JNull)])])
   \<and> session_id (fst (snd (goto sample_loads utf8_stdout (serve [line_result_1, line_error]) sample_client
        (str ''https://example.com'') None None))) = JStr (str ''s1'')"
proof -
  have "goto sample_loads utf8_stdout (serve [line_result_1, line_error]) sample_client (str ''https://example.com'') None None
     = (Inl (StagehandAPIError (JStr (str ''boom''))), sample_client,
        [HttpStream (str ''http://localhost:3000'') (SessionMethod (JStr (str ''s1'')) (str ''navigate''))
           (JObj [(str ''url'', JStr (str ''https://example.com'')), (str ''options'', JNull), (str ''frameId'', JNull)])])"
    by (simp add: goto_def execute_serve step_samples opt_dict_def opt_str_def)
  then show ?thesis
    using operate_keeps_client[of sample_loads utf8_stdout "serve [line_result_1, line_error]" sample_client
        "str ''https://example.com''" None None]
    by (simp add: sample_client_fields)
qed

end
